theory Spec2Isabelle
  imports Complex_Main
begin

section \<open>Geolocation utilities (src/lib/geolocation.ts)\<close>

text \<open>
  JavaScript numbers are embedded as real numbers: the model has no NaN, no infinities
  and no negative zero. The interfaces \<open>Coordinates\<close>, \<open>GeofencePolygon\<close> and
  \<open>GeofencePoint\<close> all declare the two fields \<open>lat\<close> and \<open>lng\<close>; TypeScript types
  structurally, so they are one record here.
\<close>

record Coordinates =
  lat :: real
  lng :: real

type_synonym GeofencePolygon = Coordinates

type_synonym GeofencePoint = Coordinates

text \<open>
  What can go wrong while a function of this file runs: reading a field of
  \<open>polygon[k]\<close> with \<open>k\<close> outside the array (a TypeError in JavaScript), and a
  division whose divisor is zero (guarded here, so that reaching it is visible).
\<close>

datatype error = TypeError | ZeroDivisor

definition polygon_at :: "GeofencePolygon list \<Rightarrow> nat \<Rightarrow> error + GeofencePolygon" where
  "polygon_at polygon k = (if k < length polygon then Inr (polygon ! k) else Inl TypeError)"

definition guarded_div :: "real \<Rightarrow> real \<Rightarrow> error + real" where
  "guarded_div a b = (if b = 0 then Inl ZeroDivisor else Inr (a / b))"

text \<open>
  The edge-crossing test of lines 24 and 25. The operator \<open>&&\<close> evaluates its right
  operand only when the left one is true, so the division is inside that branch.
\<close>

definition intersect :: "Coordinates \<Rightarrow> GeofencePolygon \<Rightarrow> GeofencePolygon \<Rightarrow> error + bool" where
  "intersect point p_i p_j =
     (let xi = lat p_i; yi = lng p_i; xj = lat p_j; yj = lng p_j in
      if (yi > lng point) \<noteq> (yj > lng point)
      then (case guarded_div ((xj - xi) * (lng point - yi)) (yj - yi) of
              Inl e \<Rightarrow> Inl e
            | Inr q \<Rightarrow> Inr (lat point < q + xi))
      else Inr False)"

text \<open>
  The loop \<open>for (let i = 0, j = polygon.length - 1; i < polygon.length; j = i++)\<close>,
  with the loop variables and the flag \<open>inside\<close> as arguments.
\<close>

function ray_loop :: "Coordinates \<Rightarrow> GeofencePolygon list \<Rightarrow> nat \<Rightarrow> nat \<Rightarrow> bool \<Rightarrow> error + bool" where
  "ray_loop point polygon i j inside =
     (if i < length polygon
      then (case polygon_at polygon i of
              Inl e \<Rightarrow> Inl e
            | Inr p_i \<Rightarrow>
               (case polygon_at polygon j of
                  Inl e \<Rightarrow> Inl e
                | Inr p_j \<Rightarrow>
                   (case intersect point p_i p_j of
                      Inl e \<Rightarrow> Inl e
                    | Inr crossing \<Rightarrow>
                        ray_loop point polygon (i + 1) i (if crossing then \<not> inside else inside))))
      else Inr inside)"
  by pat_completeness auto
termination
  by (relation "measure (\<lambda>(point, polygon, i, j, inside). length polygon - i)") auto

declare ray_loop.simps [simp del]

definition isPointInPolygon :: "Coordinates \<Rightarrow> GeofencePolygon list \<Rightarrow> error + bool" where
  "isPointInPolygon point polygon =
     (if length polygon < 3 then Inr False
      else ray_loop point polygon 0 (length polygon - 1) False)"

text \<open>
  \<open>Math.atan2(y, x)\<close> on real arguments: the angle of the point \<open>(x, y)\<close>, in
  \<open>(-\<pi>, \<pi>]\<close>, and 0 at the origin.
\<close>

definition Math_atan2 :: "real \<Rightarrow> real \<Rightarrow> real" where
  "Math_atan2 y x =
     (if x > 0 then arctan (y / x)
      else if x < 0 then (if y \<ge> 0 then arctan (y / x) + pi else arctan (y / x) - pi)
      else if y > 0 then pi / 2
      else if y < 0 then - (pi / 2)
      else 0)"

definition toRad :: "real \<Rightarrow> real" where
  "toRad deg = deg * (pi / 180)"

definition calculateDistance :: "Coordinates \<Rightarrow> Coordinates \<Rightarrow> real" where
  "calculateDistance point1 point2 =
     (let R = 6371;
          dLat = toRad (lat point2 - lat point1);
          dLon = toRad (lng point2 - lng point1);
          lat1 = toRad (lat point1);
          lat2 = toRad (lat point2);
          a = sin (dLat / 2) * sin (dLat / 2) +
              sin (dLon / 2) * sin (dLon / 2) * cos lat1 * cos lat2;
          c = 2 * Math_atan2 (sqrt a) (sqrt (1 - a))
      in R * c)"

datatype TripType = village | outbound

definition calculateFare :: "TripType \<Rightarrow> real \<Rightarrow> real" where
  "calculateFare tripType distanceKm =
     (let VILLAGE_BASE_FARE = 20;
          OUTBOUND_BASE_FARE = 40;
          RATE_PER_KM = 10;
          baseFare = (if tripType = village then VILLAGE_BASE_FARE else OUTBOUND_BASE_FARE);
          distanceFare = real_of_int \<lceil>distanceKm\<rceil> * RATE_PER_KM
      in max baseFare (baseFare + distanceFare))"

section \<open>The geofence editor (GeofenceEditor and PolygonEditor)\<close>

record GeofenceData =
  id_gf :: string
  name_gf :: string
  polygon_gf :: "GeofencePoint list"
  is_active :: bool

text \<open>
  The state hooks of \<open>GeofenceEditor\<close>. \<open>vertices\<close> is the polygon being edited,
  \<open>originalVertices\<close> the last one loaded or saved. Arrays are dense lists of points, as
  their type \<open>GeofencePoint[]\<close> says.
\<close>

record editor =
  geofence :: "GeofenceData option"
  vertices :: "GeofencePoint list"
  originalVertices :: "GeofencePoint list"
  isEditing :: bool
  isSaving :: bool
  hasChanges :: bool

text \<open>The initial values of the hooks (lines 105 to 110).\<close>

definition initial_editor :: editor where
  "initial_editor =
     \<lparr>geofence = None, vertices = [], originalVertices = [],
      isEditing = False, isSaving = False, hasChanges = False\<rparr>"

text \<open>
  \<open>updated[index] = newPos\<close> on a copy of the array. Inside the array the element is
  replaced; at \<open>index = length\<close> JavaScript appends; beyond that it leaves holes, and the
  result is no longer a dense array of points: \<open>None\<close>.
\<close>

definition array_assign :: "'a list \<Rightarrow> nat \<Rightarrow> 'a \<Rightarrow> 'a list option" where
  "array_assign prev index newPos =
     (if index < length prev then Some (prev[index := newPos])
      else if index = length prev then Some (prev @ [newPos])
      else None)"

definition handleVertexMove :: "nat \<Rightarrow> GeofencePoint \<Rightarrow> editor \<Rightarrow> editor option" where
  "handleVertexMove index newPos s =
     (case array_assign (vertices s) index newPos of
        None \<Rightarrow> None
      | Some updated \<Rightarrow> Some (s\<lparr>vertices := updated\<rparr>))"

definition handleVertexAdd :: "GeofencePoint \<Rightarrow> editor \<Rightarrow> editor" where
  "handleVertexAdd pos s = s\<lparr>vertices := vertices s @ [pos]\<rparr>"

text \<open>\<open>prev.filter((_, i) => i !== index)\<close>: the elements whose position is not \<open>index\<close>.\<close>

definition filter_index :: "'a list \<Rightarrow> nat \<Rightarrow> 'a list" where
  "filter_index prev index = map fst (filter (\<lambda>(v, i). i \<noteq> index) (zip prev [0..<length prev]))"

definition handleVertexRemove :: "nat \<Rightarrow> editor \<Rightarrow> editor" where
  "handleVertexRemove index s = s\<lparr>vertices := filter_index (vertices s) index\<rparr>"

definition handleReset :: "editor \<Rightarrow> editor" where
  "handleReset s = s\<lparr>vertices := originalVertices s\<rparr>"

definition handleClear :: "editor \<Rightarrow> editor" where
  "handleClear s = s\<lparr>vertices := []\<rparr>"

text \<open>The Cancel button (lines 232 to 235) and the Edit Boundary button (line 221).\<close>

definition cancel :: "editor \<Rightarrow> editor" where
  "cancel s = s\<lparr>vertices := originalVertices s, isEditing := False\<rparr>"

definition edit_boundary :: "editor \<Rightarrow> editor" where
  "edit_boundary s = s\<lparr>isEditing := True\<rparr>"

text \<open>
  The handlers of \<open>PolygonEditor\<close>, which receives \<open>vertices\<close> and \<open>isEditing\<close> as
  properties. A click on the map adds a vertex while editing (lines 53 to 57). The markers
  exist only while editing, one for each index below \<open>vertices.length\<close>; dragging the marker
  \<open>index\<close> moves that vertex (lines 85 to 89) and its context menu removes it when more than
  three vertices are left (lines 91 to 96).
\<close>

definition PolygonEditor_click :: "GeofencePoint \<Rightarrow> editor \<Rightarrow> editor" where
  "PolygonEditor_click pos s = (if isEditing s then handleVertexAdd pos s else s)"

definition PolygonEditor_drag :: "nat \<Rightarrow> GeofencePoint \<Rightarrow> editor \<Rightarrow> editor option" where
  "PolygonEditor_drag index position s = handleVertexMove index position s"

definition PolygonEditor_contextmenu :: "nat \<Rightarrow> editor \<Rightarrow> editor" where
  "PolygonEditor_contextmenu index s =
     (if length (vertices s) > 3 then handleVertexRemove index s else s)"

text \<open>
  \<open>JSON.stringify\<close> of an array of points, as the sequence of its tokens. The text of a
  number is kept as the token \<open>Num\<close> of that number: over the reals the decimal text of a
  number determines it.
\<close>

datatype json_token =
  LBracket | RBracket | LBrace | RBrace | Colon | Comma | Key string | Num real

definition stringify_point :: "GeofencePoint \<Rightarrow> json_token list" where
  "stringify_point v =
     [LBrace, Key ''lat'', Colon, Num (lat v), Comma, Key ''lng'', Colon, Num (lng v), RBrace]"

fun stringify_elements :: "GeofencePoint list \<Rightarrow> json_token list" where
  "stringify_elements [] = []"
| "stringify_elements [v] = stringify_point v"
| "stringify_elements (v # w # vs) = stringify_point v @ [Comma] @ stringify_elements (w # vs)"

definition JSON_stringify :: "GeofencePoint list \<Rightarrow> json_token list" where
  "JSON_stringify vs = [LBracket] @ stringify_elements vs @ [RBracket]"

text \<open>
  The effect of lines 119 to 125. It runs after every render in which \<open>vertices\<close> or
  \<open>originalVertices\<close> is a new array; every handler above builds a new one.
\<close>

definition effect_hasChanges :: "editor \<Rightarrow> editor" where
  "effect_hasChanges s =
     (if length (originalVertices s) > 0
      then (let changed = (JSON_stringify (vertices s) \<noteq> JSON_stringify (originalVertices s))
            in s\<lparr>hasChanges := changed\<rparr>)
      else s)"

text \<open>
  \<open>handleSave\<close>, run as one step. The answer of the store to the update is the argument
  \<open>response\<close>: \<open>None\<close> when \<open>error\<close> is null, the error otherwise. The result is the new
  state and the toast shown.
\<close>

datatype toast = toast_error string | toast_info string | toast_success string

definition handleSave :: "string option \<Rightarrow> editor \<Rightarrow> editor \<times> toast" where
  "handleSave response s =
     (if geofence s = None \<or> length (vertices s) < 3
      then (s, toast_error ''Need at least 3 vertices to save'')
      else (let s1 = s\<lparr>isSaving := True\<rparr>;
                s2 = s1\<lparr>isSaving := False\<rparr>
            in case response of
                 Some err \<Rightarrow> (s2, toast_error ''Failed to save geofence'')
               | None \<Rightarrow>
                   (s2\<lparr>originalVertices := vertices s, isEditing := False\<rparr>,
                    toast_success ''Geofence saved successfully!'')))"

text \<open>
  The editing operations of the interface, and a sequence of them run from a state. A drag
  that would leave the dense arrays ends the run with \<open>None\<close>.
\<close>

datatype edit_op =
  addVertex GeofencePoint
| moveVertex nat GeofencePoint
| removeVertex nat
| clearAll

fun apply_op :: "edit_op \<Rightarrow> editor \<Rightarrow> editor option" where
  "apply_op (addVertex pos) s = Some (PolygonEditor_click pos s)"
| "apply_op (moveVertex index pos) s = PolygonEditor_drag index pos s"
| "apply_op (removeVertex index) s = Some (PolygonEditor_contextmenu index s)"
| "apply_op clearAll s = Some (handleClear s)"

fun apply_ops :: "edit_op list \<Rightarrow> editor \<Rightarrow> editor option" where
  "apply_ops [] s = Some s"
| "apply_ops (op # ops) s =
     (case apply_op op s of None \<Rightarrow> None | Some s' \<Rightarrow> apply_ops ops s')"

section \<open>The booking flow (BookingFlow.tsx)\<close>

record Station =
  id_st :: string
  name_st :: string
  latitude :: real
  longitude :: real

datatype BookingStep = pickup | dropoff | confirm | searching | matched | complete

record booking =
  step :: BookingStep
  pickupLocation :: "Coordinates option"
  dropoffLocation :: "Coordinates option"
  selectedStation :: "Station option"
  tripType :: TripType
  geofence_bf :: "GeofencePolygon list"
  stations :: "Station list"

text \<open>
  The optional argument \<open>stationId\<close> is \<open>None\<close> when absent. \<open>if (stationId)\<close> is
  false for an absent argument and for the empty string.
\<close>

definition truthy :: "string option \<Rightarrow> bool" where
  "truthy stationId = (case stationId of None \<Rightarrow> False | Some x \<Rightarrow> x \<noteq> [])"

definition handleDropoffSelect :: "Coordinates \<Rightarrow> string option \<Rightarrow> booking \<Rightarrow> error + booking" where
  "handleDropoffSelect coords stationId s =
     (let s1 = s\<lparr>dropoffLocation := Some coords\<rparr> in
      if truthy stationId
      then (case find (\<lambda>st. Some (id_st st) = stationId) (stations s) of
              Some station \<Rightarrow>
                Inr (s1\<lparr>selectedStation := Some station, tripType := outbound, step := confirm\<rparr>)
            | None \<Rightarrow> Inr (s1\<lparr>step := confirm\<rparr>))
      else (case isPointInPolygon coords (geofence_bf s) of
              Inl e \<Rightarrow> Inl e
            | Inr True \<Rightarrow>
                Inr (s1\<lparr>tripType := village, selectedStation := None, step := confirm\<rparr>)
            | Inr False \<Rightarrow>
                Inr (s1\<lparr>tripType := outbound, selectedStation := None, step := confirm\<rparr>)))"

section \<open>Concrete inputs\<close>

text \<open>The square of the specification, as (lat, lng) pairs.\<close>

definition square_polygon :: "GeofencePolygon list" where
  "square_polygon =
     [\<lparr>lat = 0, lng = 0\<rparr>, \<lparr>lat = 0, lng = 10\<rparr>, \<lparr>lat = 10, lng = 10\<rparr>, \<lparr>lat = 10, lng = 0\<rparr>]"

definition triangle :: "GeofencePoint list" where
  "triangle = [\<lparr>lat = 0, lng = 0\<rparr>, \<lparr>lat = 0, lng = 10\<rparr>, \<lparr>lat = 10, lng = 10\<rparr>]"

text \<open>
  The editor after \<open>fetchGeofence\<close> has loaded a record whose polygon is the triangle, and
  Edit Boundary was pressed.
\<close>

definition loaded_editor :: editor where
  "loaded_editor =
     \<lparr>geofence = Some \<lparr>id_gf = ''g1'', name_gf = ''Pilar Village'',
                        polygon_gf = triangle, is_active = True\<rparr>,
      vertices = triangle, originalVertices = triangle,
      isEditing = True, isSaving = False, hasChanges = False\<rparr>"

text \<open>
  The editor when \<open>fetchGeofence\<close> found no record: Edit Boundary was pressed and three
  clicks on the map drew the triangle.
\<close>

definition unloaded_editor :: editor where
  "unloaded_editor =
     \<lparr>geofence = None, vertices = triangle, originalVertices = [],
      isEditing = True, isSaving = False, hasChanges = False\<rparr>"

text \<open>
  The booking flow after a pickup was chosen, the geofence loaded, and the list of
  stations still empty (its query has not answered, or answered with no data).
\<close>

definition booking_no_stations :: booking where
  "booking_no_stations =
     \<lparr>step = dropoff, pickupLocation = Some \<lparr>lat = 5, lng = 5\<rparr>, dropoffLocation = None,
      selectedStation = None, tripType = village,
      geofence_bf = square_polygon, stations = []\<rparr>"

text \<open>
  An editing session: clear, four clicks, a drag of the first marker, the context menu of
  the second.
\<close>

definition edits :: "edit_op list" where
  "edits =
     [clearAll,
      addVertex \<lparr>lat = 1, lng = 1\<rparr>, addVertex \<lparr>lat = 1, lng = 2\<rparr>,
      addVertex \<lparr>lat = 2, lng = 2\<rparr>, addVertex \<lparr>lat = 2, lng = 1\<rparr>,
      moveVertex 0 \<lparr>lat = 0, lng = 0\<rparr>,
      removeVertex 1]"

section \<open>The point-in-polygon test\<close>

lemma intersect_Inr: "\<exists>crossing. intersect point a b = Inr crossing"
  by (auto simp: intersect_def guarded_div_def Let_def)

lemma ray_loop_Inr:
  "j < length poly \<Longrightarrow> \<exists>b. ray_loop point poly i j inside = Inr b"
proof (induction point poly i j inside rule: ray_loop.induct)
  case (1 point poly i j inside)
  show ?case
  proof (cases "i < length poly")
    case False
    then show ?thesis by (subst ray_loop.simps) simp
  next
    case True
    obtain crossing where c: "intersect point (poly ! i) (poly ! j) = Inr crossing"
      using intersect_Inr by blast
    have at_i: "polygon_at poly i = Inr (poly ! i)"
      using True by (simp add: polygon_at_def)
    have at_j: "polygon_at poly j = Inr (poly ! j)"
      using "1.prems" by (simp add: polygon_at_def)
    have "\<exists>b. ray_loop point poly (i + 1) i (if crossing then \<not> inside else inside) = Inr b"
      using "1.IH"[OF True at_i at_j c True] .
    then show ?thesis
      using True at_i at_j c by (subst ray_loop.simps) simp
  qed
qed

text \<open>
  C1. A polygon with fewer than three vertices contains no point: \<open>isPointInPolygon\<close>
  returns false for every point.
\<close>

theorem isPointInPolygon_degenerate:
  "length poly < 3 \<Longrightarrow> isPointInPolygon point poly = Inr False"
  by (simp add: isPointInPolygon_def)

theorem isPointInPolygon_degenerate_witness:
  "length [\<lparr>lat = 0, lng = 0\<rparr>, \<lparr>lat = 0, lng = 10\<rparr>] < 3 \<and>
   isPointInPolygon \<lparr>lat = 0, lng = 5\<rparr> [\<lparr>lat = 0, lng = 0\<rparr>, \<lparr>lat = 0, lng = 10\<rparr>] = Inr False"
proof -
  have h: "length [\<lparr>lat = 0, lng = 0\<rparr>, \<lparr>lat = 0, lng = (10::real)\<rparr>] < 3" by simp
  show ?thesis
    using h isPointInPolygon_degenerate [OF h, of "\<lparr>lat = 0, lng = 5\<rparr>"] by simp
qed

text \<open>
  C3. For the square with vertices (0,0), (0,10), (10,10), (10,0), the point (5,5) is
  inside and the point (20,20) is outside.
\<close>

theorem isPointInPolygon_square:
  "isPointInPolygon \<lparr>lat = 5, lng = 5\<rparr> square_polygon = Inr True \<and>
   isPointInPolygon \<lparr>lat = 20, lng = 20\<rparr> square_polygon = Inr False"
  by (simp add: square_polygon_def isPointInPolygon_def ray_loop.simps polygon_at_def
        intersect_def guarded_div_def)

text \<open>
  C10. The division of the edge-crossing test is reached only when exactly one of
  \<open>yi > lng\<close> and \<open>yj > lng\<close> holds, so its divisor \<open>yj - yi\<close> is not zero: the
  crossing test never ends in the zero-divisor branch, and \<open>isPointInPolygon\<close> returns
  a boolean for every point and every polygon.
\<close>

theorem isPointInPolygon_division_guarded:
  "intersect point a b \<noteq> Inl ZeroDivisor \<and>
   (\<exists>inside. isPointInPolygon point poly = Inr inside)"
proof -
  have "\<exists>inside. isPointInPolygon point poly = Inr inside"
  proof (cases "length poly < 3")
    case True
    then show ?thesis by (auto simp: isPointInPolygon_def)
  next
    case False
    then have "length poly - 1 < length poly" by simp
    from ray_loop_Inr [OF this, of point 0 False] show ?thesis
      using False by (simp add: isPointInPolygon_def)
  qed
  moreover have "intersect point a b \<noteq> Inl ZeroDivisor"
    using intersect_Inr [of point a b] by auto
  ultimately show ?thesis by simp
qed

section \<open>Distance and fare\<close>

text \<open>
  The two arguments of \<open>Math.sqrt\<close> in \<open>calculateDistance\<close> are never negative over
  the reals, whatever the coordinates: \<open>a\<close> is a convex combination of two numbers of
  the unit interval.
\<close>

lemma convex_unit:
  fixes w S C :: real
  assumes "0 \<le> w" "w \<le> 1" "0 \<le> S" "S \<le> 1" "0 \<le> C" "C \<le> 1"
  shows "0 \<le> (1 - w) * S + w * C \<and> (1 - w) * S + w * C \<le> 1"
proof -
  have "0 \<le> (1 - w) * S" "0 \<le> w * C" using assms by simp_all
  moreover have "(1 - w) * S \<le> (1 - w) * 1" using assms by (intro mult_left_mono) simp_all
  moreover have "w * C \<le> w * 1" using assms by (intro mult_left_mono) simp_all
  ultimately show ?thesis by simp
qed

lemma sin_sq_unit: "0 \<le> sin (t::real) * sin t \<and> sin t * sin t \<le> 1"
proof -
  have "sin t * sin t + cos t * cos t = 1"
    using sin_cos_squared_add [of t] by (simp add: power2_eq_square)
  moreover have "0 \<le> cos t * cos t" by simp
  moreover have "0 \<le> sin t * sin t" by simp
  ultimately show ?thesis by linarith
qed

lemma haversine_unit:
  fixes x y v :: real
  shows "0 \<le> sin ((y - x) / 2) * sin ((y - x) / 2) + sin v * sin v * cos x * cos y \<and>
         sin ((y - x) / 2) * sin ((y - x) / 2) + sin v * sin v * cos x * cos y \<le> 1"
proof -
  let ?S = "sin ((y - x) / 2) * sin ((y - x) / 2)"
  let ?w = "sin v * sin v"
  let ?C = "(1 + cos (x + y)) / 2"
  have half: "2 * ((y - x) / 2) = y - x" by simp
  have cd: "cos (y - x) = 1 - 2 * ?S"
    using cos_double_sin [of "(y - x) / 2"] unfolding half power2_eq_square .
  have "cos x * cos y = (cos (y - x) + cos (x + y)) / 2"
    by (simp add: cos_add cos_diff)
  with cd have cc: "cos x * cos y = ?C - ?S" by (simp add: field_simps)
  have "?S + ?w * cos x * cos y = ?S + ?w * (cos x * cos y)" by simp
  also have "\<dots> = (1 - ?w) * ?S + ?w * ?C" by (simp only: cc) (simp add: algebra_simps)
  finally have a_eq: "?S + ?w * cos x * cos y = (1 - ?w) * ?S + ?w * ?C" .
  have "- 1 \<le> cos (x + y)" "cos (x + y) \<le> 1" by simp_all
  then have "0 \<le> 1 + cos (x + y)" "1 + cos (x + y) \<le> 2" by linarith+
  then have C: "0 \<le> ?C \<and> ?C \<le> 1" by simp
  from convex_unit [of ?w ?S ?C] sin_sq_unit [of v] sin_sq_unit [of "(y - x) / 2"] C
  show ?thesis unfolding a_eq by blast
qed

lemma toRad_diff: "toRad (p - q) = toRad p - toRad q"
  by (simp add: toRad_def left_diff_distrib)

lemma calculateDistance_sqrt_arguments:
  "0 \<le> sin (toRad (lat point2 - lat point1) / 2) * sin (toRad (lat point2 - lat point1) / 2) +
        sin (toRad (lng point2 - lng point1) / 2) * sin (toRad (lng point2 - lng point1) / 2) *
        cos (toRad (lat point1)) * cos (toRad (lat point2)) \<and>
   sin (toRad (lat point2 - lat point1) / 2) * sin (toRad (lat point2 - lat point1) / 2) +
        sin (toRad (lng point2 - lng point1) / 2) * sin (toRad (lng point2 - lng point1) / 2) *
        cos (toRad (lat point1)) * cos (toRad (lat point2)) \<le> 1"
  unfolding toRad_diff [of "lat point2" "lat point1"]
  by (rule haversine_unit)

text \<open>
  C9. Over the reals, the distance from a point to itself is 0, and the distance is
  symmetric in its two arguments.
\<close>

theorem calculateDistance_zero_symmetric:
  "calculateDistance p p = 0 \<and> calculateDistance a b = calculateDistance b a"
proof -
  have sq: "sin (toRad (x - y) / 2) * sin (toRad (x - y) / 2) =
            sin (toRad (y - x) / 2) * sin (toRad (y - x) / 2)" for x y
  proof -
    have "toRad (x - y) = - toRad (y - x)"
      unfolding toRad_def by (metis minus_diff_eq mult_minus_left)
    then have "toRad (x - y) / 2 = - (toRad (y - x) / 2)" by simp
    then show ?thesis by simp
  qed
  have zero: "calculateDistance p p = 0"
    by (simp add: calculateDistance_def Math_atan2_def toRad_def Let_def)
  have sym: "calculateDistance a b = calculateDistance b a"
    unfolding calculateDistance_def Let_def
    by (simp add: sq [of "lat b" "lat a"] sq [of "lng b" "lng a"] mult.commute mult.left_commute)
  from zero sym show ?thesis by simp
qed

text \<open>
  C2. For a distance that is not negative, the fare is the larger of the base fare and
  the base fare plus ten times the distance rounded up, the base fare being 20 for a
  village trip and 40 for an outbound one; that is the base fare plus the surcharge. In
  particular the fare of a village trip is 20 at distance 0 and 40 at distance 1.5, and
  the fare of an outbound trip at distance 0 is 40.
\<close>

theorem calculateFare_formula:
  "0 \<le> distanceKm \<Longrightarrow>
     calculateFare t distanceKm =
       max (if t = village then 20 else 40)
           ((if t = village then 20 else 40) + real_of_int \<lceil>distanceKm\<rceil> * 10) \<and>
     calculateFare t distanceKm =
       (if t = village then 20 else 40) + real_of_int \<lceil>distanceKm\<rceil> * 10 \<and>
     calculateFare village 0 = 20 \<and>
     calculateFare village 1.5 = 40 \<and>
     calculateFare outbound 0 = 40"
  by (simp add: calculateFare_def Let_def)

theorem calculateFare_formula_witness:
  "(0::real) \<le> 2.3 \<and> calculateFare outbound 2.3 = 70"
proof -
  have h: "(0::real) \<le> 2.3" by simp
  show ?thesis
    using h calculateFare_formula [OF h, of outbound] by simp
qed

section \<open>The geofence editor\<close>

lemma filter_index_snoc:
  "filter_index (xs @ [x]) i = filter_index xs i @ (if length xs \<noteq> i then [x] else [])"
  by (simp add: filter_index_def)

lemma filter_index_take_drop: "filter_index xs i = take i xs @ drop (Suc i) xs"
proof (induction xs rule: rev_induct)
  case Nil
  then show ?case by (simp add: filter_index_def)
next
  case (snoc x xs)
  then show ?case by (cases "i < length xs") (auto simp: filter_index_snoc)
qed

text \<open>
  C5. The context menu of the marker \<open>index\<close> deletes the vertex at that index when there
  are more than three vertices, and changes nothing otherwise; a polygon of three
  vertices keeps its three vertices.
\<close>

theorem removeVertex_floor:
  "PolygonEditor_contextmenu index s =
     (if length (vertices s) > 3
      then s\<lparr>vertices := take index (vertices s) @ drop (Suc index) (vertices s)\<rparr>
      else s) \<and>
   (length (vertices s) = 3 \<longrightarrow> length (vertices (PolygonEditor_contextmenu index s)) = 3)"
  by (simp add: PolygonEditor_contextmenu_def handleVertexRemove_def filter_index_take_drop)

theorem removeVertex_floor_witness:
  "length (vertices loaded_editor) = 3 \<and>
   PolygonEditor_contextmenu 1 loaded_editor = loaded_editor \<and>
   length (vertices (PolygonEditor_contextmenu 1 loaded_editor)) = 3 \<and>
   vertices (PolygonEditor_contextmenu 1 (handleVertexAdd \<lparr>lat = 10, lng = 0\<rparr> loaded_editor)) =
     [\<lparr>lat = 0, lng = 0\<rparr>, \<lparr>lat = 10, lng = 10\<rparr>, \<lparr>lat = 10, lng = 0\<rparr>]"
proof -
  have h: "length (vertices loaded_editor) = 3"
    by (simp add: loaded_editor_def triangle_def)
  have four: "vertices (handleVertexAdd \<lparr>lat = 10, lng = 0\<rparr> loaded_editor) =
      [\<lparr>lat = 0, lng = 0\<rparr>, \<lparr>lat = 0, lng = 10\<rparr>, \<lparr>lat = 10, lng = 10\<rparr>, \<lparr>lat = 10, lng = 0\<rparr>]"
    by (simp add: handleVertexAdd_def loaded_editor_def triangle_def)
  show ?thesis
    using h four removeVertex_floor [of 1 loaded_editor]
      removeVertex_floor [of 1 "handleVertexAdd \<lparr>lat = 10, lng = 0\<rparr> loaded_editor"]
    by simp
qed

text \<open>
  An operation ends the run only when it drags a marker that lies beyond the end of the
  array; the markers drawn are those of the indices below the length.
\<close>

lemma apply_op_None_iff:
  "apply_op op s = None \<longleftrightarrow>
     (\<exists>index pos. op = moveVertex index pos \<and> length (vertices s) < index)"
  by (cases op)
     (auto simp: PolygonEditor_drag_def handleVertexMove_def array_assign_def
        split: option.splits)

lemma apply_op_originalVertices:
  "apply_op op s = Some s' \<Longrightarrow> originalVertices s' = originalVertices s"
  by (cases op)
     (auto simp: PolygonEditor_click_def handleVertexAdd_def PolygonEditor_drag_def
        handleVertexMove_def PolygonEditor_contextmenu_def handleVertexRemove_def handleClear_def
        split: option.splits if_splits)

lemma apply_ops_originalVertices:
  "apply_ops ops s = Some s' \<Longrightarrow> originalVertices s' = originalVertices s"
proof (induction ops arbitrary: s)
  case Nil
  then show ?case by simp
next
  case (Cons op ops)
  then show ?case by (auto split: option.splits dest: apply_op_originalVertices)
qed

text \<open>
  C6. Whatever sequence of add, move, remove and clear operations is run from a state,
  \<open>originalVertices\<close> is the same afterwards, and a reset then makes \<open>vertices\<close> equal
  to it, in order and in values.
\<close>

theorem reset_restores_baseline:
  "apply_ops ops s = Some s' \<Longrightarrow>
     originalVertices s' = originalVertices s \<and>
     vertices (handleReset s') = originalVertices s \<and>
     originalVertices (handleReset s') = originalVertices s"
  by (simp add: apply_ops_originalVertices handleReset_def)

theorem reset_restores_baseline_witness:
  "apply_ops edits loaded_editor =
     Some (loaded_editor\<lparr>vertices := [\<lparr>lat = 0, lng = 0\<rparr>, \<lparr>lat = 2, lng = 2\<rparr>, \<lparr>lat = 2, lng = 1\<rparr>]\<rparr>) \<and>
   vertices (handleReset
     (loaded_editor\<lparr>vertices := [\<lparr>lat = 0, lng = 0\<rparr>, \<lparr>lat = 2, lng = 2\<rparr>, \<lparr>lat = 2, lng = 1\<rparr>]\<rparr>)) =
     triangle"
proof -
  have run: "apply_ops edits loaded_editor =
     Some (loaded_editor\<lparr>vertices := [\<lparr>lat = 0, lng = 0\<rparr>, \<lparr>lat = 2, lng = 2\<rparr>, \<lparr>lat = 2, lng = 1\<rparr>]\<rparr>)"
    by (simp add: edits_def loaded_editor_def handleClear_def PolygonEditor_click_def
          handleVertexAdd_def PolygonEditor_drag_def handleVertexMove_def array_assign_def
          PolygonEditor_contextmenu_def handleVertexRemove_def filter_index_take_drop)
  have base: "originalVertices loaded_editor = triangle"
    by (simp add: loaded_editor_def)
  show ?thesis
    using run base reset_restores_baseline [OF run] by simp
qed

subsection \<open>The dirty flag\<close>

lemma stringify_elements_inj: "stringify_elements xs = stringify_elements ys \<Longrightarrow> xs = ys"
proof (induction xs arbitrary: ys rule: stringify_elements.induct)
  case 1
  then show ?case
    by (cases ys rule: stringify_elements.cases) (simp_all add: stringify_point_def)
next
  case (2 v)
  then show ?case
    by (cases ys rule: stringify_elements.cases) (simp_all add: stringify_point_def)
next
  case (3 v w vs)
  then show ?case
    by (cases ys rule: stringify_elements.cases) (simp_all add: stringify_point_def)
qed

lemma JSON_stringify_inj: "JSON_stringify xs = JSON_stringify ys \<longleftrightarrow> xs = ys"
  by (auto simp: JSON_stringify_def dest: stringify_elements_inj)

lemma effect_hasChanges_dirty:
  "originalVertices s \<noteq> [] \<Longrightarrow>
     hasChanges (effect_hasChanges s) = (vertices s \<noteq> originalVertices s)"
  by (simp add: effect_hasChanges_def JSON_stringify_inj)

lemma effect_hasChanges_skipped: "originalVertices s = [] \<Longrightarrow> effect_hasChanges s = s"
  by (simp add: effect_hasChanges_def)

text \<open>
  C8, as the code has it. The effect compares only when \<open>originalVertices\<close> is not
  empty. With an empty baseline the flag is left as it was: in the editor that loaded
  nothing, a click adds a vertex, \<open>vertices\<close> differs from \<open>originalVertices\<close>, and
  \<open>hasChanges\<close> is still false.
\<close>

theorem dirty_flag_counterexample:
  "originalVertices (edit_boundary initial_editor) = [] \<and>
   vertices (PolygonEditor_click \<lparr>lat = 1, lng = 2\<rparr> (edit_boundary initial_editor)) \<noteq>
     originalVertices (PolygonEditor_click \<lparr>lat = 1, lng = 2\<rparr> (edit_boundary initial_editor)) \<and>
   \<not> hasChanges (effect_hasChanges
        (PolygonEditor_click \<lparr>lat = 1, lng = 2\<rparr> (edit_boundary initial_editor)))"
  by (simp add: initial_editor_def edit_boundary_def PolygonEditor_click_def handleVertexAdd_def
        effect_hasChanges_def)

text \<open>
  C8, amended. When \<open>originalVertices\<close> is not empty, after an add, move, remove, clear
  or reset the effect sets \<open>hasChanges\<close> to true exactly when \<open>vertices\<close> and
  \<open>originalVertices\<close> differ as sequences (in length, order or values).
\<close>

theorem dirty_flag_nonempty_baseline:
  "originalVertices s \<noteq> [] \<Longrightarrow> apply_op op s = Some s' \<or> s' = handleReset s \<Longrightarrow>
     originalVertices s' = originalVertices s \<and>
     hasChanges (effect_hasChanges s') = (vertices s' \<noteq> originalVertices s')"
proof -
  assume ne: "originalVertices s \<noteq> []"
    and m: "apply_op op s = Some s' \<or> s' = handleReset s"
  from m have same: "originalVertices s' = originalVertices s"
    by (auto simp: handleReset_def dest: apply_op_originalVertices)
  with ne have "originalVertices s' \<noteq> []" by simp
  from effect_hasChanges_dirty [OF this] same show ?thesis by simp
qed

theorem dirty_flag_nonempty_baseline_witness:
  "originalVertices loaded_editor \<noteq> [] \<and>
   apply_op (addVertex \<lparr>lat = 10, lng = 0\<rparr>) loaded_editor =
     Some (handleVertexAdd \<lparr>lat = 10, lng = 0\<rparr> loaded_editor) \<and>
   hasChanges (effect_hasChanges (handleVertexAdd \<lparr>lat = 10, lng = 0\<rparr> loaded_editor)) \<and>
   \<not> hasChanges (effect_hasChanges
        (handleReset (handleVertexAdd \<lparr>lat = 10, lng = 0\<rparr> loaded_editor)))"
proof -
  let ?s = "handleVertexAdd \<lparr>lat = 10, lng = 0\<rparr> loaded_editor"
  have ne: "originalVertices loaded_editor \<noteq> []"
    by (simp add: loaded_editor_def triangle_def)
  have ne': "originalVertices ?s \<noteq> []"
    by (simp add: handleVertexAdd_def loaded_editor_def triangle_def)
  have add: "apply_op (addVertex \<lparr>lat = 10, lng = 0\<rparr>) loaded_editor = Some ?s"
    by (simp add: PolygonEditor_click_def loaded_editor_def)
  have differ: "vertices ?s \<noteq> originalVertices ?s"
    by (simp add: handleVertexAdd_def loaded_editor_def triangle_def)
  have restored: "vertices (handleReset ?s) = originalVertices (handleReset ?s)"
    by (simp add: handleReset_def)
  show ?thesis
    using ne add differ restored
      dirty_flag_nonempty_baseline [OF ne disjI1, OF add]
      dirty_flag_nonempty_baseline [OF ne' disjI2, OF refl]
    by simp
qed

subsection \<open>Saving\<close>

text \<open>
  C4, as the code has it. \<open>handleSave\<close> also refuses when no geofence record is loaded:
  in the editor that loaded nothing, with a triangle drawn and a store that would
  answer without error, the save reports the validation error, \<open>originalVertices\<close> is
  not set to \<open>vertices\<close> and the editor stays in editing mode.
\<close>

theorem handleSave_counterexample:
  "isEditing unloaded_editor \<and> length (vertices unloaded_editor) \<ge> 3 \<and>
   snd (handleSave None unloaded_editor) = toast_error ''Need at least 3 vertices to save'' \<and>
   originalVertices (fst (handleSave None unloaded_editor)) \<noteq> vertices unloaded_editor \<and>
   isEditing (fst (handleSave None unloaded_editor))"
  by (simp add: unloaded_editor_def triangle_def handleSave_def)

text \<open>
  C4, amended. In editing mode: a save with fewer than three vertices, or with no
  geofence record loaded, reports the validation error and leaves the whole state as it
  was; with a record loaded and at least three vertices, a save that the store answers
  with an error reports it and leaves \<open>originalVertices\<close>, \<open>vertices\<close> and the editing
  mode as they were; and a save that the store answers without error sets
  \<open>originalVertices\<close> to \<open>vertices\<close> and leaves editing mode.
\<close>

theorem handleSave_loaded:
  "isEditing s \<Longrightarrow>
     (geofence s = None \<or> length (vertices s) < 3 \<longrightarrow>
        handleSave response s = (s, toast_error ''Need at least 3 vertices to save'')) \<and>
     (geofence s \<noteq> None \<and> length (vertices s) \<ge> 3 \<and> response \<noteq> None \<longrightarrow>
        snd (handleSave response s) = toast_error ''Failed to save geofence'' \<and>
        originalVertices (fst (handleSave response s)) = originalVertices s \<and>
        vertices (fst (handleSave response s)) = vertices s \<and>
        isEditing (fst (handleSave response s))) \<and>
     (geofence s \<noteq> None \<and> length (vertices s) \<ge> 3 \<and> response = None \<longrightarrow>
        snd (handleSave response s) = toast_success ''Geofence saved successfully!'' \<and>
        originalVertices (fst (handleSave response s)) = vertices s \<and>
        vertices (fst (handleSave response s)) = vertices s \<and>
        \<not> isEditing (fst (handleSave response s)))"
  by (auto simp: handleSave_def Let_def split: option.splits)

theorem handleSave_loaded_witness:
  "isEditing loaded_editor \<and> isEditing (handleClear loaded_editor) \<and>
   handleSave None (handleClear loaded_editor) =
     (handleClear loaded_editor, toast_error ''Need at least 3 vertices to save'') \<and>
   snd (handleSave (Some ''timeout'') loaded_editor) = toast_error ''Failed to save geofence'' \<and>
   isEditing (fst (handleSave (Some ''timeout'') loaded_editor)) \<and>
   originalVertices (fst (handleSave None loaded_editor)) = triangle \<and>
   \<not> isEditing (fst (handleSave None loaded_editor))"
proof -
  have e: "isEditing loaded_editor" by (simp add: loaded_editor_def)
  have e': "isEditing (handleClear loaded_editor)"
    by (simp add: handleClear_def loaded_editor_def)
  have few: "length (vertices (handleClear loaded_editor)) < 3"
    by (simp add: handleClear_def)
  have rec: "geofence loaded_editor \<noteq> None" by (simp add: loaded_editor_def)
  have three: "length (vertices loaded_editor) \<ge> 3"
    by (simp add: loaded_editor_def triangle_def)
  have vs: "vertices loaded_editor = triangle" by (simp add: loaded_editor_def)
  show ?thesis
    using e e' few rec three vs
      handleSave_loaded [OF e', of None]
      handleSave_loaded [OF e, of "Some ''timeout''"]
      handleSave_loaded [OF e, of None]
    by simp
qed

section \<open>The booking flow\<close>

text \<open>The two paths of \<open>handleDropoffSelect\<close> that classify the trip.\<close>

lemma handleDropoffSelect_known_station:
  "truthy stationId \<Longrightarrow>
   find (\<lambda>st. Some (id_st st) = stationId) (stations s) = Some station \<Longrightarrow>
   handleDropoffSelect coords stationId s =
     Inr (s\<lparr>dropoffLocation := Some coords, selectedStation := Some station,
            tripType := outbound, step := confirm\<rparr>)"
  by (simp add: handleDropoffSelect_def)

lemma handleDropoffSelect_no_station:
  "\<not> truthy stationId \<Longrightarrow> isPointInPolygon coords (geofence_bf s) = Inr b \<Longrightarrow>
   handleDropoffSelect coords stationId s =
     Inr (s\<lparr>dropoffLocation := Some coords,
            tripType := (if b then village else outbound),
            selectedStation := None, step := confirm\<rparr>)"
  by (cases b) (simp_all add: handleDropoffSelect_def)

text \<open>
  C7, where the code departs from it. A drop-off that carries a station identifier not
  in the list of stations is neither recorded as a station nor classified by the
  geofence: the trip type and the selected station stay as they were. Here the
  coordinate (20,20) is outside the square, the identifier \<open>S1\<close> is unknown, and the
  trip stays a village trip.
\<close>

theorem handleDropoffSelect_unknown_station:
  "handleDropoffSelect \<lparr>lat = 20, lng = 20\<rparr> (Some ''S1'') booking_no_stations =
     Inr (booking_no_stations\<lparr>dropoffLocation := Some \<lparr>lat = 20, lng = 20\<rparr>, step := confirm\<rparr>) \<and>
   tripType booking_no_stations = village \<and>
   isPointInPolygon \<lparr>lat = 20, lng = 20\<rparr> (geofence_bf booking_no_stations) = Inr False"
  by (simp add: handleDropoffSelect_def truthy_def booking_no_stations_def
        square_polygon_def isPointInPolygon_def ray_loop.simps polygon_at_def
        intersect_def guarded_div_def)

end
